theory Spec2Isabelle
  imports Main
begin

section \<open>Python values, errors and the driver\<close>

text \<open>
  The program is \<^verbatim>\<open>src/demo.py\<close>. Its only logic of its own is the generator
  \<^verbatim>\<open>snowflake_cursor\<close> (lines 10-41), used as a context manager. Everything it
  calls (\<^verbatim>\<open>sc.connect\<close>, \<^verbatim>\<open>conn.cursor\<close>, \<^verbatim>\<open>conn.rollback\<close>,
  \<^verbatim>\<open>cur.close\<close>, \<^verbatim>\<open>conn.close\<close>) belongs to the external driver, and
  \<^verbatim>\<open>print\<close> writes to the console, so both are a parameter of the model: a
  record holding, for each call, whether it returns or which exception it raises.
\<close>

datatype pyval = PyNone | PyInt int | PyStr string

text \<open>Handles returned by the driver.\<close>

datatype conn = Conn nat
datatype cur = Cur nat

text \<open>
  The attributes of \<^verbatim>\<open>sc.errors.ProgrammingError\<close> that line 36 reads. Each may
  be \<^verbatim>\<open>None\<close> in Python.
\<close>

record programming_error =
  errno :: pyval
  sqlstate :: pyval
  msg :: pyval
  sfqid :: pyval

text \<open>
  An exception is either an instance of \<^verbatim>\<open>ProgrammingError\<close> (the class named in
  the \<^verbatim>\<open>except\<close> clause of line 31) or anything else, identified by a name.
\<close>

datatype exn = ProgrammingError programming_error | OtherError string

record driver =
  connect :: "string \<Rightarrow> (string \<times> pyval) list \<Rightarrow> exn + conn"
  cursor :: "conn \<Rightarrow> exn + cur"
  rollback :: "conn \<Rightarrow> exn option"
  cursor_close :: "cur \<Rightarrow> exn option"
  conn_close :: "conn \<Rightarrow> exn option"
  error_str :: "programming_error \<Rightarrow> exn + string"
  print_default :: "string \<Rightarrow> exn option"
  print_custom :: "string \<Rightarrow> exn option"

text \<open>
  \<open>Inl e\<close> and \<open>Some e\<close> say that the call raises \<open>e\<close>; \<open>Inr h\<close> and \<open>None\<close> that it
  returns. \<open>error_str\<close> is the driver's \<^verbatim>\<open>__str__\<close> of the error, which
  \<^verbatim>\<open>print(e)\<close> of line 34 calls first. \<open>print_default\<close> is the console's
  answer to the write of that text, and \<open>print_custom\<close> its answer to the write
  of line 36: a write can raise as well (an encoding error, a closed pipe). The
  helper makes each of these calls at most once in a session, so one outcome per
  call describes any run.
\<close>

text \<open>
  What the helper does that the outside can see, in order. An event stands for
  the call, whether it then returns or raises; \<open>Print s\<close> is the write of \<open>s\<close>
  to the console.
\<close>

datatype event =
    Connect string "(string \<times> pyval) list"
  | OpenCursor conn
  | Yield conn cur
  | Print string
  | Rollback conn
  | CloseCursor cur
  | CloseConn conn

section \<open>Rendering values as text\<close>

fun str_nat :: "nat \<Rightarrow> string" where
  "str_nat n =
     (if n < 10 then [char_of (48 + n)]
      else str_nat (n div 10) @ [char_of (48 + n mod 10)])"

definition str_int :: "int \<Rightarrow> string" where
  "str_int i = (if i < 0 then CHR ''-'' # str_nat (nat (- i)) else str_nat (nat i))"

text \<open>Python's \<^verbatim>\<open>str\<close>, which \<^verbatim>\<open>str.format\<close> applies to each argument.\<close>

fun py_str :: "pyval \<Rightarrow> string" where
  "py_str PyNone = ''None''"
| "py_str (PyInt i) = str_int i"
| "py_str (PyStr s) = s"

text \<open>
  \<^verbatim>\<open>json.dumps\<close> of the standard library, for a flat dict of strings whose code
  points are below 256: the default separators, and every character outside
  the printable ASCII range escaped.
\<close>

definition hex_digit :: "nat \<Rightarrow> char" where
  "hex_digit n = (if n < 10 then char_of (48 + n) else char_of (87 + n))"

definition json_escape :: "char \<Rightarrow> string" where
  "json_escape ch =
     (if ch = CHR 0x22 then [CHR 0x5C, CHR 0x22]
      else if ch = CHR 0x5C then [CHR 0x5C, CHR 0x5C]
      else if ch = CHR 0x08 then [CHR 0x5C, CHR ''b'']
      else if ch = CHR 0x0C then [CHR 0x5C, CHR ''f'']
      else if ch = CHR 0x0A then [CHR 0x5C, CHR ''n'']
      else if ch = CHR 0x0D then [CHR 0x5C, CHR ''r'']
      else if ch = CHR 0x09 then [CHR 0x5C, CHR ''t'']
      else if (of_char ch :: nat) < 32 \<or> 126 < (of_char ch :: nat)
        then [CHR 0x5C, CHR ''u'', CHR ''0'', CHR ''0'',
              hex_digit (of_char ch div 16), hex_digit (of_char ch mod 16)]
      else [ch])"

definition json_string :: "string \<Rightarrow> string" where
  "json_string s = [CHR 0x22] @ concat (map json_escape s) @ [CHR 0x22]"

fun join :: "string \<Rightarrow> string list \<Rightarrow> string" where
  "join sep [] = []"
| "join sep [x] = x"
| "join sep (x # y # ys) = x @ sep @ join sep (y # ys)"

definition json_dumps :: "(string \<times> string) list \<Rightarrow> string" where
  "json_dumps kvs =
     ''{'' @ join '', '' (map (\<lambda>(k, v). json_string k @ '': '' @ json_string v) kvs) @ ''}''"

section \<open>The helper \<^verbatim>\<open>snowflake_cursor\<close>\<close>

text \<open>The arguments of \<^verbatim>\<open>sc.connect\<close>, lines 22-26.\<close>

definition connection_name :: string where
  "connection_name = ''dev''"

definition session_parameters :: "(string \<times> pyval) list" where
  "session_parameters =
     [(''QUERY_TAG'', PyStr (json_dumps [(''user'', ''xiang'')])),
      (''STATEMENT_TIMEOUT_IN_SECONDS'', PyInt (60 * 5))]"

text \<open>
  Lines 18-28, the part of the generator that runs up to the \<^verbatim>\<open>yield\<close>
  (the context manager's entry). Both calls are outside the \<^verbatim>\<open>try\<close>, so an
  exception of either leaves the generator at once.
\<close>

definition snowflake_cursor_enter :: "driver \<Rightarrow> event list \<times> (exn + conn \<times> cur)" where
  "snowflake_cursor_enter d =
     (case connect d connection_name session_parameters of
        Inl e \<Rightarrow> ([Connect connection_name session_parameters], Inl e)
      | Inr c \<Rightarrow>
          (case cursor d c of
             Inl e \<Rightarrow> ([Connect connection_name session_parameters, OpenCursor c], Inl e)
           | Inr k \<Rightarrow> ([Connect connection_name session_parameters, OpenCursor c], Inr (c, k))))"

text \<open>Line 36, the formatted message.\<close>

definition custom_message :: "programming_error \<Rightarrow> string" where
  "custom_message e =
     ''Error '' @ py_str (errno e) @ '' ('' @ py_str (sqlstate e) @ ''): ''
       @ py_str (msg e) @ '' ('' @ py_str (sfqid e) @ '')''"

text \<open>
  Lines 29-38: what the \<^verbatim>\<open>try\<close> statement does with the way the block under the
  \<^verbatim>\<open>with\<close> ended (\<open>None\<close>: it completed; \<open>Some e\<close>: it raised \<open>e\<close>, which the
  context manager throws into the generator at the \<^verbatim>\<open>yield\<close>). The result is
  the exception pending when the \<^verbatim>\<open>finally\<close> clause starts. The four
  statements of the \<^verbatim>\<open>except\<close> clause run in sequence and none is guarded: an
  exception of \<^verbatim>\<open>print(e)\<close> (of the error's \<^verbatim>\<open>__str__\<close> or of the write)
  skips lines 36-38, one of the second \<^verbatim>\<open>print\<close> skips
  \<^verbatim>\<open>conn.rollback()\<close> and \<^verbatim>\<open>raise e\<close>, and one of \<^verbatim>\<open>conn.rollback()\<close>
  skips \<^verbatim>\<open>raise e\<close>; that exception is then the pending one.
\<close>

definition handler :: "driver \<Rightarrow> conn \<Rightarrow> exn option \<Rightarrow> event list \<times> exn option" where
  "handler d c raised =
     (case raised of
        None \<Rightarrow> ([], None)
      | Some (ProgrammingError e) \<Rightarrow>
          (case error_str d e of
             Inl e' \<Rightarrow> ([], Some e')
           | Inr s \<Rightarrow>
               (case print_default d s of
                  Some e' \<Rightarrow> ([Print s], Some e')
                | None \<Rightarrow>
                    (case print_custom d (custom_message e) of
                       Some e' \<Rightarrow> ([Print s, Print (custom_message e)], Some e')
                     | None \<Rightarrow>
                         ([Print s, Print (custom_message e), Rollback c],
                          (case rollback d c of
                             Some e' \<Rightarrow> Some e'
                           | None \<Rightarrow> Some (ProgrammingError e))))))
      | Some (OtherError x) \<Rightarrow> ([], Some (OtherError x)))"

text \<open>
  Lines 39-41, the \<^verbatim>\<open>finally\<close> clause: two statements in sequence, so an
  exception of \<^verbatim>\<open>cur.close()\<close> skips \<^verbatim>\<open>conn.close()\<close>.
\<close>

definition release :: "driver \<Rightarrow> conn \<Rightarrow> cur \<Rightarrow> event list \<times> exn option" where
  "release d c k =
     (case cursor_close d k of
        Some e \<Rightarrow> ([CloseCursor k], Some e)
      | None \<Rightarrow> ([CloseCursor k, CloseConn c], conn_close d c))"

text \<open>
  Lines 29-41, the part of the generator that runs after the \<^verbatim>\<open>yield\<close> (the
  context manager's exit). An exception raised in the \<^verbatim>\<open>finally\<close> clause
  replaces the pending one.
\<close>

definition snowflake_cursor_exit ::
    "driver \<Rightarrow> conn \<Rightarrow> cur \<Rightarrow> exn option \<Rightarrow> event list \<times> exn option" where
  "snowflake_cursor_exit d c k raised =
     (case handler d c raised of
        (tr1, pending) \<Rightarrow>
          (case release d c k of
             (tr2, Some e) \<Rightarrow> (tr1 @ tr2, Some e)
           | (tr2, None) \<Rightarrow> (tr1 @ tr2, pending)))"

text \<open>
  The statement \<^verbatim>\<open>with snowflake_cursor() as (conn, cur): body\<close>, as at lines 63,
  71, 81 and on. The body is the caller's: it gets the two handles and either
  completes or raises. The result is the trace of events and the exception the
  code around the \<^verbatim>\<open>with\<close> statement observes, if any.
\<close>

definition with_snowflake_cursor ::
    "driver \<Rightarrow> (conn \<Rightarrow> cur \<Rightarrow> exn option) \<Rightarrow> event list \<times> exn option" where
  "with_snowflake_cursor d body =
     (case snowflake_cursor_enter d of
        (tr, Inl e) \<Rightarrow> (tr, Some e)
      | (tr, Inr (c, k)) \<Rightarrow>
          (case snowflake_cursor_exit d c k (body c k) of
             (tr', out) \<Rightarrow> (tr @ [Yield c k] @ tr', out)))"

definition trace :: "driver \<Rightarrow> (conn \<Rightarrow> cur \<Rightarrow> exn option) \<Rightarrow> event list" where
  "trace d body = fst (with_snowflake_cursor d body)"

definition observed :: "driver \<Rightarrow> (conn \<Rightarrow> cur \<Rightarrow> exn option) \<Rightarrow> exn option" where
  "observed d body = snd (with_snowflake_cursor d body)"

fun is_release :: "event \<Rightarrow> bool" where
  "is_release (CloseCursor k) = True"
| "is_release (CloseConn c) = True"
| "is_release _ = False"

fun is_connect :: "event \<Rightarrow> bool" where
  "is_connect (Connect n ps) = True"
| "is_connect _ = False"

fun is_yield :: "event \<Rightarrow> bool" where
  "is_yield (Yield c k) = True"
| "is_yield _ = False"

section \<open>Concrete drivers and bodies\<close>

definition an_error :: programming_error where
  "an_error = \<lparr>errno = PyInt 1003, sqlstate = PyStr ''42000'',
     msg = PyStr ''SQL compilation error'', sfqid = PyStr ''01a2''\<rparr>"

definition good_driver :: driver where
  "good_driver = \<lparr>connect = (\<lambda>n ps. Inr (Conn 0)), cursor = (\<lambda>c. Inr (Cur 0)),
     rollback = (\<lambda>c. None), cursor_close = (\<lambda>k. None), conn_close = (\<lambda>c. None),
     error_str = (\<lambda>e. Inr (py_str (msg e))),
     print_default = (\<lambda>s. None), print_custom = (\<lambda>s. None)\<rparr>"

text \<open>A driver whose \<^verbatim>\<open>cur.close()\<close> raises.\<close>

definition cursor_close_fails_driver :: driver where
  "cursor_close_fails_driver =
     good_driver\<lparr>cursor_close := (\<lambda>k. Some (OtherError ''OperationalError''))\<rparr>"

text \<open>A driver whose \<^verbatim>\<open>conn.close()\<close> raises.\<close>

definition conn_close_fails_driver :: driver where
  "conn_close_fails_driver =
     good_driver\<lparr>conn_close := (\<lambda>c. Some (OtherError ''OperationalError''))\<rparr>"

text \<open>A console on which the write of \<^verbatim>\<open>print(e)\<close>, line 34, raises.\<close>

definition print_fails_driver :: driver where
  "print_fails_driver =
     good_driver\<lparr>print_default := (\<lambda>s. Some (OtherError ''UnicodeEncodeError''))\<rparr>"

text \<open>A driver whose \<^verbatim>\<open>conn.rollback()\<close> raises.\<close>

definition rollback_fails_driver :: driver where
  "rollback_fails_driver =
     good_driver\<lparr>rollback := (\<lambda>c. Some (OtherError ''OperationalError''))\<rparr>"

text \<open>A driver whose \<^verbatim>\<open>sc.connect\<close> raises.\<close>

definition connect_fails_driver :: driver where
  "connect_fails_driver =
     good_driver\<lparr>connect := (\<lambda>n ps. Inl (OtherError ''DatabaseError''))\<rparr>"

text \<open>A driver whose \<^verbatim>\<open>conn.cursor()\<close> raises after a successful connect.\<close>

definition cursor_fails_driver :: driver where
  "cursor_fails_driver =
     good_driver\<lparr>cursor := (\<lambda>c. Inl (OtherError ''InterfaceError''))\<rparr>"

definition body_ok :: "conn \<Rightarrow> cur \<Rightarrow> exn option" where
  "body_ok c k = None"

definition body_programming_error :: "conn \<Rightarrow> cur \<Rightarrow> exn option" where
  "body_programming_error c k = Some (ProgrammingError an_error)"

definition body_other_error :: "conn \<Rightarrow> cur \<Rightarrow> exn option" where
  "body_other_error c k = Some (OtherError ''KeyError'')"

section \<open>Properties\<close>

lemma json_dumps_tag: \<open>json_dumps [(''user'', ''xiang'')] = ''{"user": "xiang"}''\<close>
  by (simp add: json_dumps_def json_string_def json_escape_def)

subsection \<open>Shape of a session\<close>

text \<open>
  When both acquisitions succeed, a session's trace is the two acquisitions, the
  \<^verbatim>\<open>yield\<close>, whatever the \<^verbatim>\<open>except\<close> clause does, and the \<^verbatim>\<open>finally\<close>
  clause; the exception observed is that of the \<^verbatim>\<open>finally\<close> clause when it
  raises, and the pending one otherwise.
\<close>

lemma enter_ok:
  "connect d connection_name session_parameters = Inr c \<Longrightarrow> cursor d c = Inr k \<Longrightarrow>
   snowflake_cursor_enter d = ([Connect connection_name session_parameters, OpenCursor c], Inr (c, k))"
  by (simp add: snowflake_cursor_enter_def)

lemma handler_events:
  "filter is_release (fst (handler d c r)) = [] \<and> filter is_yield (fst (handler d c r)) = []
   \<and> filter is_connect (fst (handler d c r)) = []"
  by (simp add: handler_def split: option.splits exn.splits sum.splits)

lemma release_events:
  "fst (release d c k) = (if cursor_close d k = None then [CloseCursor k, CloseConn c] else [CloseCursor k])"
  by (simp add: release_def split: option.splits)

lemma trace_created:
  assumes "connect d connection_name session_parameters = Inr c" and "cursor d c = Inr k"
  shows "trace d body = [Connect connection_name session_parameters, OpenCursor c, Yield c k]
           @ fst (handler d c (body c k)) @ fst (release d c k)"
  using assms
  by (simp add: trace_def with_snowflake_cursor_def enter_ok snowflake_cursor_exit_def
      split: prod.splits option.splits)

lemma observed_created:
  assumes "connect d connection_name session_parameters = Inr c" and "cursor d c = Inr k"
  shows "observed d body =
           (case snd (release d c k) of Some e \<Rightarrow> Some e | None \<Rightarrow> snd (handler d c (body c k)))"
  using assms
  by (simp add: observed_def with_snowflake_cursor_def enter_ok snowflake_cursor_exit_def
      split: prod.splits option.splits)

lemma custom_message_an_error:
  "custom_message an_error = ''Error 1003 (42000): SQL compilation error (01a2)''"
  by code_simp

subsection \<open>Release on every exit path\<close>

text \<open>
  Claim C1 says that on every exit path of the block the cursor is closed and then
  the connection is closed. Any call of the driver can raise, and the
  \<^verbatim>\<open>finally\<close> clause is two statements in sequence: in a created session whose
  body raises a \<^verbatim>\<open>ProgrammingError\<close> and whose \<^verbatim>\<open>cur.close()\<close> raises, the
  only release event is the cursor close, and the connection stays open.
\<close>

theorem cursor_close_failure_leaves_conn_open:
  "snowflake_cursor_enter cursor_close_fails_driver =
     ([Connect connection_name session_parameters, OpenCursor (Conn 0)], Inr (Conn 0, Cur 0))
   \<and> body_programming_error (Conn 0) (Cur 0) = Some (ProgrammingError an_error)
   \<and> cursor_close cursor_close_fails_driver (Cur 0) = Some (OtherError ''OperationalError'')
   \<and> filter is_release (trace cursor_close_fails_driver body_programming_error) =
       [CloseCursor (Cur 0)]"
  by (simp add: trace_def with_snowflake_cursor_def snowflake_cursor_enter_def
      snowflake_cursor_exit_def handler_def release_def body_programming_error_def
      cursor_close_fails_driver_def good_driver_def)

text \<open>
  Claim C1 as amended. For every session the helper creates (both acquisitions
  returned) and for every way the block under the \<^verbatim>\<open>with\<close> ends (the body is
  arbitrary: it completes, raises a \<^verbatim>\<open>ProgrammingError\<close>, or raises anything
  else), provided \<^verbatim>\<open>cur.close()\<close> returns: the release events of the session are
  the cursor close and then the connection close, each exactly once, they are its
  last two events, after the \<^verbatim>\<open>yield\<close>, and the block is entered once.
\<close>

theorem release_exactly_once:
  assumes "connect d connection_name session_parameters = Inr c"
    and "cursor d c = Inr k"
    and "cursor_close d k = None"
  shows "filter is_release (trace d body) = [CloseCursor k, CloseConn c]
       \<and> (\<exists>pre. trace d body = pre @ [CloseCursor k, CloseConn c] \<and> Yield c k \<in> set pre)
       \<and> filter is_yield (trace d body) = [Yield c k]"
  using assms by (simp add: trace_created handler_events release_events)

theorem release_exactly_once_witness:
  "filter is_release (trace good_driver body_programming_error) =
     [CloseCursor (Cur 0), CloseConn (Conn 0)]
   \<and> filter is_yield (trace good_driver body_programming_error) = [Yield (Conn 0) (Cur 0)]"
  using release_exactly_once [of good_driver "Conn 0" "Cur 0" body_programming_error]
  by (simp add: good_driver_def)

subsection \<open>The recoverable error\<close>

text \<open>
  Claim C2 says that whenever the body raises a \<^verbatim>\<open>ProgrammingError\<close> the helper
  prints two messages, rolls back, and the code around the \<^verbatim>\<open>with\<close> statement
  observes that same error. Lines 34-38 are four unguarded statements in
  sequence. When \<^verbatim>\<open>conn.rollback()\<close> raises, line 38 is not reached and the
  rollback's exception is the one observed, after both closes. When the write of
  \<^verbatim>\<open>print(e)\<close> raises, neither the second message nor the rollback follows,
  and the write's exception is the one observed.
\<close>

theorem rollback_failure_replaces_error:
  "body_programming_error (Conn 0) (Cur 0) = Some (ProgrammingError an_error)
   \<and> rollback rollback_fails_driver (Conn 0) = Some (OtherError ''OperationalError'')
   \<and> observed rollback_fails_driver body_programming_error =
       Some (OtherError ''OperationalError'')
   \<and> observed rollback_fails_driver body_programming_error \<noteq>
       Some (ProgrammingError an_error)
   \<and> print_default print_fails_driver ''SQL compilation error'' =
       Some (OtherError ''UnicodeEncodeError'')
   \<and> trace print_fails_driver body_programming_error =
       [Connect connection_name session_parameters, OpenCursor (Conn 0),
        Yield (Conn 0) (Cur 0), Print ''SQL compilation error'',
        CloseCursor (Cur 0), CloseConn (Conn 0)]
   \<and> observed print_fails_driver body_programming_error =
       Some (OtherError ''UnicodeEncodeError'')"
  by (simp add: trace_def observed_def with_snowflake_cursor_def snowflake_cursor_enter_def
      snowflake_cursor_exit_def handler_def release_def body_programming_error_def
      rollback_fails_driver_def print_fails_driver_def good_driver_def an_error_def)

text \<open>
  Claim C2 as amended. In a created session whose body raises a
  \<^verbatim>\<open>ProgrammingError\<close> \<open>e\<close>, the helper writes the error's own text, then the
  message formatted from its error code, SQL state, message and query id, then
  calls \<^verbatim>\<open>conn.rollback()\<close>, each step only when the one before returned, and
  the release follows in every case. Provided the two prints, the rollback and
  the two closes return, the release comes after the rollback and the code around
  the \<^verbatim>\<open>with\<close> statement observes \<open>ProgrammingError e\<close> itself, with the same
  fields. When a print or the rollback raises, the rest of the \<^verbatim>\<open>except\<close>
  clause is skipped and, the closes returning, that call's exception is observed;
  when a close raises, that close's exception is observed.
\<close>

theorem programming_error_reraised:
  assumes "connect d connection_name session_parameters = Inr c"
    and "cursor d c = Inr k"
    and "body c k = Some (ProgrammingError e)"
  shows "(error_str d e = Inr s \<and> print_default d s = None
            \<and> print_custom d (custom_message e) = None \<longrightarrow>
            trace d body =
              [Connect connection_name session_parameters, OpenCursor c, Yield c k,
               Print s, Print (custom_message e), Rollback c] @ fst (release d c k)
            \<and> (rollback d c = None \<and> cursor_close d k = None \<and> conn_close d c = None \<longrightarrow>
                 trace d body =
                   [Connect connection_name session_parameters, OpenCursor c, Yield c k,
                    Print s, Print (custom_message e), Rollback c,
                    CloseCursor k, CloseConn c]
                 \<and> observed d body = Some (ProgrammingError e))
            \<and> (rollback d c = Some e' \<and> cursor_close d k = None \<and> conn_close d c = None \<longrightarrow>
                 observed d body = Some e'))
       \<and> (error_str d e = Inl e' \<longrightarrow>
            trace d body =
              [Connect connection_name session_parameters, OpenCursor c, Yield c k]
                @ fst (release d c k)
            \<and> (cursor_close d k = None \<and> conn_close d c = None \<longrightarrow>
                 observed d body = Some e'))
       \<and> (error_str d e = Inr s \<and> print_default d s = Some e' \<longrightarrow>
            trace d body =
              [Connect connection_name session_parameters, OpenCursor c, Yield c k,
               Print s] @ fst (release d c k)
            \<and> (cursor_close d k = None \<and> conn_close d c = None \<longrightarrow>
                 observed d body = Some e'))
       \<and> (error_str d e = Inr s \<and> print_default d s = None
            \<and> print_custom d (custom_message e) = Some e' \<longrightarrow>
            trace d body =
              [Connect connection_name session_parameters, OpenCursor c, Yield c k,
               Print s, Print (custom_message e)] @ fst (release d c k)
            \<and> (cursor_close d k = None \<and> conn_close d c = None \<longrightarrow>
                 observed d body = Some e'))
       \<and> (cursor_close d k = Some e' \<longrightarrow> observed d body = Some e')
       \<and> (cursor_close d k = None \<and> conn_close d c = Some e' \<longrightarrow> observed d body = Some e')"
  using assms
  by (simp add: trace_created observed_created handler_def release_def)

theorem programming_error_reraised_witness:
  "trace good_driver body_programming_error =
     [Connect connection_name session_parameters, OpenCursor (Conn 0), Yield (Conn 0) (Cur 0),
      Print ''SQL compilation error'',
      Print ''Error 1003 (42000): SQL compilation error (01a2)'',
      Rollback (Conn 0), CloseCursor (Cur 0), CloseConn (Conn 0)]
   \<and> observed good_driver body_programming_error = Some (ProgrammingError an_error)
   \<and> trace print_fails_driver body_programming_error =
       [Connect connection_name session_parameters, OpenCursor (Conn 0),
        Yield (Conn 0) (Cur 0), Print ''SQL compilation error'',
        CloseCursor (Cur 0), CloseConn (Conn 0)]
   \<and> observed print_fails_driver body_programming_error =
       Some (OtherError ''UnicodeEncodeError'')"
  using programming_error_reraised [where d = good_driver and c = "Conn 0" and k = "Cur 0"
      and body = body_programming_error and e = an_error and s = "''SQL compilation error''"]
    programming_error_reraised [where d = print_fails_driver and c = "Conn 0" and k = "Cur 0"
      and body = body_programming_error and e = an_error and s = "''SQL compilation error''"
      and e' = "OtherError ''UnicodeEncodeError''"]
  by (simp add: good_driver_def print_fails_driver_def body_programming_error_def
      custom_message_an_error release_def)
     (simp add: an_error_def)

subsection \<open>Any other failure\<close>

text \<open>
  Claim C3 says that an exception of the body that is not a
  \<^verbatim>\<open>ProgrammingError\<close> always reaches the caller unchanged. An exception raised
  in the \<^verbatim>\<open>finally\<close> clause replaces it: with a driver whose
  \<^verbatim>\<open>conn.close()\<close> raises, the body's \<^verbatim>\<open>KeyError\<close> is not what the code
  around the \<^verbatim>\<open>with\<close> statement observes.
\<close>

theorem close_failure_replaces_error:
  "body_other_error (Conn 0) (Cur 0) = Some (OtherError ''KeyError'')
   \<and> conn_close conn_close_fails_driver (Conn 0) = Some (OtherError ''OperationalError'')
   \<and> observed conn_close_fails_driver body_other_error =
       Some (OtherError ''OperationalError'')
   \<and> observed conn_close_fails_driver body_other_error \<noteq> Some (OtherError ''KeyError'')"
  by (simp add: observed_def with_snowflake_cursor_def snowflake_cursor_enter_def
      snowflake_cursor_exit_def handler_def release_def body_other_error_def
      conn_close_fails_driver_def good_driver_def)

text \<open>
  Claim C3 as amended. In a created session whose body raises an exception that
  is not a \<^verbatim>\<open>ProgrammingError\<close>, the helper prints nothing and rolls nothing
  back: the release follows the \<^verbatim>\<open>yield\<close> directly. Provided the two closes
  return, the code around the \<^verbatim>\<open>with\<close> statement observes the very exception
  the body raised, after both closes; when a close raises, it observes that
  close's exception.
\<close>

theorem other_error_propagates:
  assumes "connect d connection_name session_parameters = Inr c"
    and "cursor d c = Inr k"
    and "body c k = Some (OtherError x)"
  shows "trace d body =
           [Connect connection_name session_parameters, OpenCursor c, Yield c k]
             @ fst (release d c k)
       \<and> (cursor_close d k = None \<and> conn_close d c = None \<longrightarrow>
            trace d body =
              [Connect connection_name session_parameters, OpenCursor c, Yield c k,
               CloseCursor k, CloseConn c]
            \<and> observed d body = Some (OtherError x))
       \<and> (cursor_close d k = Some e' \<longrightarrow> observed d body = Some e')
       \<and> (cursor_close d k = None \<and> conn_close d c = Some e' \<longrightarrow> observed d body = Some e')"
  using assms
  by (simp add: trace_created observed_created handler_def release_def)

theorem other_error_propagates_witness:
  "trace good_driver body_other_error =
     [Connect connection_name session_parameters, OpenCursor (Conn 0), Yield (Conn 0) (Cur 0),
      CloseCursor (Cur 0), CloseConn (Conn 0)]
   \<and> observed good_driver body_other_error = Some (OtherError ''KeyError'')"
  using other_error_propagates [where d = good_driver and c = "Conn 0" and k = "Cur 0"
      and body = body_other_error and x = "''KeyError''"]
  by (simp add: good_driver_def body_other_error_def release_def)

subsection \<open>A release that fails\<close>

text \<open>
  Claim C4 says that the connection close is attempted even if the cursor close
  raises. It is not: with a driver whose \<^verbatim>\<open>cur.close()\<close> raises, the session's
  trace ends at the cursor close and holds no connection close.
\<close>

theorem cursor_close_failure_skips_conn_close:
  "cursor_close cursor_close_fails_driver (Cur 0) = Some (OtherError ''OperationalError'')
   \<and> trace cursor_close_fails_driver body_ok =
       [Connect connection_name session_parameters, OpenCursor (Conn 0), Yield (Conn 0) (Cur 0),
        CloseCursor (Cur 0)]
   \<and> CloseConn (Conn 0) \<notin> set (trace cursor_close_fails_driver body_ok)"
  by (simp add: trace_def with_snowflake_cursor_def snowflake_cursor_enter_def
      snowflake_cursor_exit_def handler_def release_def body_ok_def
      cursor_close_fails_driver_def good_driver_def)

text \<open>
  Claim C4 as amended. In every created session the cursor close is attempted
  first, exactly once; the connection close is attempted, once and after it,
  exactly when the cursor close returns (whether or not the connection close then
  raises); when the cursor close raises, the connection close is not attempted and
  the code around the \<^verbatim>\<open>with\<close> statement observes the cursor close's exception.
\<close>

theorem release_attempts:
  assumes "connect d connection_name session_parameters = Inr c"
    and "cursor d c = Inr k"
  shows "filter is_release (trace d body) =
           (if cursor_close d k = None then [CloseCursor k, CloseConn c] else [CloseCursor k])
       \<and> (cursor_close d k = Some e \<longrightarrow> observed d body = Some e)"
  using assms
  by (simp add: trace_created observed_created handler_events release_events)
     (simp add: release_def)

theorem release_attempts_witness:
  "conn_close conn_close_fails_driver (Conn 0) = Some (OtherError ''OperationalError'')
   \<and> filter is_release (trace conn_close_fails_driver body_ok) =
       [CloseCursor (Cur 0), CloseConn (Conn 0)]
   \<and> filter is_release (trace cursor_close_fails_driver body_other_error) =
       [CloseCursor (Cur 0)]
   \<and> observed cursor_close_fails_driver body_other_error =
       Some (OtherError ''OperationalError'')"
  using release_attempts [of conn_close_fails_driver "Conn 0" "Cur 0" body_ok]
    release_attempts [where d = cursor_close_fails_driver and c = "Conn 0" and k = "Cur 0"
      and e = "OtherError ''OperationalError''" and body = body_other_error]
  by (simp add: conn_close_fails_driver_def cursor_close_fails_driver_def good_driver_def)

subsection \<open>Connecting\<close>

text \<open>
  Claim C5. The first thing the helper does, whatever the driver and the body, is
  its only call of \<^verbatim>\<open>sc.connect\<close>, with the connection profile named
  \<^verbatim>\<open>dev\<close> and a mapping of two session parameters: the query tag (the JSON text
  of the user name) and the statement timeout, 300 seconds.
\<close>

theorem connect_arguments:
  \<open>\<exists>rest. trace d body =
      Connect ''dev'' [(''QUERY_TAG'', PyStr ''{"user": "xiang"}''),
                       (''STATEMENT_TIMEOUT_IN_SECONDS'', PyInt 300)] # rest
    \<and> filter is_connect rest = []\<close>
proof -
  have args: \<open>Connect connection_name session_parameters =
      Connect ''dev'' [(''QUERY_TAG'', PyStr ''{"user": "xiang"}''),
                       (''STATEMENT_TIMEOUT_IN_SECONDS'', PyInt 300)]\<close>
    by (simp add: connection_name_def session_parameters_def json_dumps_tag)
  have "\<exists>rest. trace d body = Connect connection_name session_parameters # rest
          \<and> filter is_connect rest = []"
  proof (cases "connect d connection_name session_parameters")
    case (Inl e)
    then show ?thesis
      by (simp add: trace_def with_snowflake_cursor_def snowflake_cursor_enter_def)
  next
    case (Inr c)
    show ?thesis
    proof (cases "cursor d c")
      case (Inl e)
      with Inr show ?thesis
        by (simp add: trace_def with_snowflake_cursor_def snowflake_cursor_enter_def)
    next
      case (Inr k)
      with \<open>connect d connection_name session_parameters = Inr c\<close> show ?thesis
        by (simp add: trace_created handler_events release_events)
    qed
  qed
  with args show ?thesis by simp
qed

subsection \<open>An acquisition that fails\<close>

text \<open>
  Claim C10. When \<^verbatim>\<open>sc.connect\<close> raises, the session consists of that call
  alone; when \<^verbatim>\<open>conn.cursor()\<close> raises after a successful connect, it consists
  of the two acquisition calls alone. In both cases the body does not run, nothing
  is released (in the second case the open connection is never closed), and the
  code around the \<^verbatim>\<open>with\<close> statement observes the acquisition's exception.
\<close>

theorem acquisition_failure_no_release:
  "(connect d connection_name session_parameters = Inl e \<longrightarrow>
      trace d body = [Connect connection_name session_parameters]
      \<and> filter is_release (trace d body) = []
      \<and> observed d body = Some e)
   \<and> (connect d connection_name session_parameters = Inr c \<and> cursor d c = Inl e \<longrightarrow>
      trace d body = [Connect connection_name session_parameters, OpenCursor c]
      \<and> filter is_release (trace d body) = []
      \<and> observed d body = Some e)"
  by (simp add: trace_def observed_def with_snowflake_cursor_def snowflake_cursor_enter_def)

theorem acquisition_failure_no_release_witness:
  "trace connect_fails_driver body_ok = [Connect connection_name session_parameters]
   \<and> observed connect_fails_driver body_ok = Some (OtherError ''DatabaseError'')
   \<and> trace cursor_fails_driver body_ok =
       [Connect connection_name session_parameters, OpenCursor (Conn 0)]
   \<and> observed cursor_fails_driver body_ok = Some (OtherError ''InterfaceError'')
   \<and> CloseConn (Conn 0) \<notin> set (trace cursor_fails_driver body_ok)"
  using acquisition_failure_no_release
          [of connect_fails_driver "OtherError ''DatabaseError''" body_ok "Conn 0"]
        acquisition_failure_no_release
          [of cursor_fails_driver "OtherError ''InterfaceError''" body_ok "Conn 0"]
  by (simp add: connect_fails_driver_def cursor_fails_driver_def good_driver_def)

end
